theory Spec2Isabelle
  imports Complex_Main
begin

section \<open>Data model\<close>

text \<open>
  The plugin consists of \<^verbatim>\<open>helpers/kv.ts\<close> (the store adapter \<^verbatim>\<open>KVCacheStore\<close>) and
  \<^verbatim>\<open>swr.ts\<close> (\<^verbatim>\<open>makeSwr\<close> and the four operations it returns).

  A \<^verbatim>\<open>Headers\<close> object and the \<^verbatim>\<open>Record<string, string>\<close> it is serialised to are both
  the list of its (name, value) entries, in iteration order.
\<close>

type_synonym headers = "(string \<times> string) list"

record request =
  url :: string
  req_method :: string

record response =
  status :: int
  headers :: headers
  body :: string

text \<open>
  A JavaScript number as far as the code needs it: an integer (milliseconds and seconds
  are integers here, represented exactly while below \<open>2 ^ 53\<close> in magnitude) or \<^verbatim>\<open>NaN\<close>,
  which is what \<^verbatim>\<open>new Date(x).getTime()\<close> gives for an invalid date.
\<close>

datatype jsnum = Num int | NaN

text \<open>
  What \<^verbatim>\<open>kv.get(key, {type: 'json'})\<close> hands back for a key that is present: the parsed
  JSON value. The code distinguishes falsy values (\<^verbatim>\<open>null\<close>, \<^verbatim>\<open>false\<close>, \<^verbatim>\<open>0\<close>, \<^verbatim>\<open>""\<close>),
  other primitives (on which the \<^verbatim>\<open>in\<close> operator throws a \<^verbatim>\<open>TypeError\<close>) and objects.
  Of an object it reads the four fields of \<^verbatim>\<open>CachedData | CachedDataDeprecated\<close>; each
  may be absent, and has its declared type when present. (An array is an object with
  none of the four.)
\<close>

record cached_json =
  j_headers :: "headers option"
  j_body :: "string option"
  j_expireAt :: "int option"
  j_cacheTtl :: "string option"

datatype kvjson = JFalsy | JPrimitive | JObject cached_json

text \<open>An entry of the KV namespace: the stored value and the \<^verbatim>\<open>expirationTtl\<close> it was put with.\<close>

record kv_entry =
  stored :: kvjson
  expirationTtl :: int

type_synonym kvnamespace = "string \<rightharpoonup> kv_entry"

datatype kv_call = KvGet string | KvPut string | KvDelete string


text \<open>A promise handed to \<^verbatim>\<open>context.waitUntil\<close>: a revalidation awaiting the answer to
  the fetch it has issued (the index of that fetch).\<close>

datatype task = Revalidation nat

datatype error =
    NotMatchedError string request
  | TypeError
  | FetchFailed

text \<open>
  Everything outside the plugin that it reads or changes: the KV namespace, the calls
  made on it, the requests handed to \<^verbatim>\<open>fetch\<close> (oldest first), the promises handed to
  \<^verbatim>\<open>context.waitUntil\<close>, and the lines printed by \<^verbatim>\<open>console.log\<close>. The calls on the KV
  namespace themselves do not fail.
\<close>

record world =
  kv :: kvnamespace
  kv_calls :: "kv_call list"
  fetches :: "request list"
  waiting :: "task list"
  console :: "string list"

text \<open>
  The platform: \<^verbatim>\<open>new Date(s).getTime()\<close> for a string \<open>s\<close>, and the answer of the network
  to the \<open>i\<close>-th fetch issued (\<open>None\<close>: the fetch rejects). Two fetches of one request
  may be answered differently.
\<close>

record runtime =
  dateGetTime :: "string \<Rightarrow> jsnum"
  net :: "nat \<Rightarrow> request \<Rightarrow> response option"

section \<open>JavaScript arithmetic\<close>

fun js_sub :: "jsnum \<Rightarrow> jsnum \<Rightarrow> jsnum" where
  "js_sub (Num a) (Num b) = Num (a - b)"
| "js_sub _ _ = NaN"

text \<open>\<^verbatim>\<open>Math.floor(x / 1000)\<close>\<close>

fun js_floor_div1000 :: "jsnum \<Rightarrow> jsnum" where
  "js_floor_div1000 (Num a) = Num \<lfloor>real_of_int a / 1000\<rfloor>"
| "js_floor_div1000 NaN = NaN"

text \<open>\<^verbatim>\<open>Math.max(x, 0)\<close>: \<^verbatim>\<open>NaN\<close> if an argument is.\<close>

fun js_max0 :: "jsnum \<Rightarrow> jsnum" where
  "js_max0 (Num a) = Num (max a 0)"
| "js_max0 NaN = NaN"

text \<open>\<^verbatim>\<open>x < 1\<close>: false on \<^verbatim>\<open>NaN\<close>.\<close>

fun js_lt1 :: "jsnum \<Rightarrow> bool" where
  "js_lt1 (Num a) = (a < 1)"
| "js_lt1 NaN = False"

text \<open>\<^verbatim>\<open>new Date(v).getTime()\<close>, where \<open>v\<close> is a string or \<^verbatim>\<open>undefined\<close>.\<close>

fun newDate_getTime :: "runtime \<Rightarrow> string option \<Rightarrow> jsnum" where
  "newDate_getTime rt None = NaN"
| "newDate_getTime rt (Some s) = dateGetTime rt s"

section \<open>helpers/kv.ts\<close>

definition EXPIRATION_TTL :: int where
  "EXPIRATION_TTL = 60 * 60 * 24 * 365"

definition headerToJson :: "response \<Rightarrow> headers" where
  "headerToJson res = headers res"

text \<open>\<^verbatim>\<open>new Response(body, {headers})\<close>: the status is the constructor's default, 200; an
  \<^verbatim>\<open>undefined\<close> body is empty and \<^verbatim>\<open>undefined\<close> headers are none.\<close>

definition restoreResponse :: "cached_json \<Rightarrow> response" where
  "restoreResponse res =
     \<lparr>status = 200,
      headers = (case j_headers res of None \<Rightarrow> [] | Some h \<Rightarrow> h),
      body = (case j_body res of None \<Rightarrow> [] | Some b \<Rightarrow> b)\<rparr>"

text \<open>The three operations of \<^verbatim>\<open>KVCacheStore(kv, ttl)\<close>; \<open>now\<close> is \<^verbatim>\<open>new Date().getTime()\<close>.\<close>

definition KVCacheStore_put :: "int \<Rightarrow> int \<Rightarrow> request \<Rightarrow> response \<Rightarrow> world \<Rightarrow> world" where
  "KVCacheStore_put ttl now req res w =
     (let expireAt = now + ttl * 1000
      in w\<lparr>kv := (kv w)(url req \<mapsto>
               \<lparr>stored = JObject \<lparr>j_headers = Some (headerToJson res),
                                  j_body = Some (body res),
                                  j_expireAt = Some expireAt,
                                  j_cacheTtl = None\<rparr>,
                expirationTtl = EXPIRATION_TTL\<rparr>),
            kv_calls := kv_calls w @ [KvPut (url req)]\<rparr>)"

definition KVCacheStore_match ::
  "runtime \<Rightarrow> int \<Rightarrow> request \<Rightarrow> world \<Rightarrow> (error + response option \<times> jsnum) \<times> world" where
  "KVCacheStore_match rt now req w =
     (let w' = w\<lparr>kv_calls := kv_calls w @ [KvGet (url req)]\<rparr>
      in case kv w (url req) of
           None \<Rightarrow> (Inr (None, Num 0), w')
         | Some e \<Rightarrow>
             (case stored e of
                JFalsy \<Rightarrow> (Inr (None, Num 0), w')
              | JPrimitive \<Rightarrow> (Inl TypeError, w')
              | JObject res \<Rightarrow>
                  (let remainingTime =
                         (case j_expireAt res of
                            Some expireAt \<Rightarrow> js_sub (Num expireAt) (Num now)
                          | None \<Rightarrow> js_sub (newDate_getTime rt (j_cacheTtl res)) (Num now))
                   in (Inr (Some (restoreResponse res),
                            js_max0 (js_floor_div1000 remainingTime)), w'))))"

definition KVCacheStore_delete :: "request \<Rightarrow> world \<Rightarrow> world" where
  "KVCacheStore_delete req w =
     w\<lparr>kv := (kv w)(url req := None), kv_calls := kv_calls w @ [KvDelete (url req)]\<rparr>"

section \<open>swr.ts\<close>

definition TTL_DEFAULT :: int where
  "TTL_DEFAULT = 60"

definition PROXY_DEFAULT :: "request \<Rightarrow> request" where
  "PROXY_DEFAULT r = r"

record swr_options =
  opt_ttl :: "int option"
  opt_proxy :: "(request \<Rightarrow> request) option"
  opt_debug :: "bool option"

text \<open>\<^verbatim>\<open>MakeFunctionArgs\<close>; \<open>storeApi\<close> is \<^verbatim>\<open>KVCacheStore(kv, ttl)\<close>, and \<open>logger\<close> prints when
  \<open>debug\<close> is set. \<^verbatim>\<open>makeSwr\<close> fills in the defaults and builds the four operations
  \<open>makeMatchFunc\<close>, \<open>makePutFunc\<close>, \<open>makeRevalidateFunc\<close> and \<open>makeClearFunc\<close> from these
  arguments.\<close>

record args =
  request :: request
  ttl :: int
  proxy :: "request \<Rightarrow> request"
  debug :: bool

definition makeSwr :: "request \<Rightarrow> swr_options option \<Rightarrow> args" where
  "makeSwr remoteRequest options =
     (let opts = (case options of None \<Rightarrow> \<lparr>opt_ttl = None, opt_proxy = None, opt_debug = None\<rparr>
                  | Some p \<Rightarrow> p)
      in \<lparr>request = remoteRequest,
          ttl = (case opt_ttl opts of None \<Rightarrow> TTL_DEFAULT | Some t \<Rightarrow> t),
          proxy = (case opt_proxy opts of None \<Rightarrow> PROXY_DEFAULT | Some p \<Rightarrow> p),
          debug = (case opt_debug opts of None \<Rightarrow> False | Some d \<Rightarrow> d)\<rparr>)"

definition logger :: "args \<Rightarrow> string \<Rightarrow> world \<Rightarrow> world" where
  "logger a msg w = (if debug a then w\<lparr>console := console w @ [msg]\<rparr> else w)"

text \<open>\<^verbatim>\<open>fetch(req)\<close> issues the request; the answer is that of the network to this fetch.\<close>

definition fetch :: "request \<Rightarrow> world \<Rightarrow> nat \<times> world" where
  "fetch req w = (length (fetches w), w\<lparr>fetches := fetches w @ [req]\<rparr>)"

definition makePutFunc :: "args \<Rightarrow> int \<Rightarrow> response \<Rightarrow> world \<Rightarrow> world" where
  "makePutFunc a now res w =
     logger a ''created the cache'' (KVCacheStore_put (ttl a) now (request a) res w)"

definition makeClearFunc :: "args \<Rightarrow> world \<Rightarrow> world" where
  "makeClearFunc a w = logger a ''deleted the cache'' (KVCacheStore_delete (request a) w)"

text \<open>
  \<^verbatim>\<open>makeRevalidateFunc\<close>. Calling \<^verbatim>\<open>revalidate()\<close> runs it up to its \<^verbatim>\<open>await\<close>: the log line
  and the fetch of the proxied request are issued at once (\<open>revalidate_start\<close>); the rest
  runs when the fetch is answered (\<open>revalidate_resume\<close>). \<open>makeRevalidateFunc\<close> is the
  awaited whole.
\<close>

definition revalidate_start :: "args \<Rightarrow> world \<Rightarrow> nat \<times> world" where
  "revalidate_start a w =
     (let proxiedRequest = proxy a (request a)
      in fetch proxiedRequest (logger a ''revalidate the cache'' w))"

definition revalidate_resume ::
  "runtime \<Rightarrow> args \<Rightarrow> int \<Rightarrow> nat \<Rightarrow> world \<Rightarrow> (error + unit) \<times> world" where
  "revalidate_resume rt a now i w =
     (let proxiedRequest = proxy a (request a)
      in case net rt i proxiedRequest of
           None \<Rightarrow> (Inl FetchFailed, w)
         | Some res \<Rightarrow>
             if 400 \<le> status res \<and> status res \<le> 499 then (Inr (), makeClearFunc a w)
             else if 200 \<le> status res \<and> status res \<le> 299 then (Inr (), makePutFunc a now res w)
             else (Inr (), w))"

definition makeRevalidateFunc :: "runtime \<Rightarrow> args \<Rightarrow> int \<Rightarrow> world \<Rightarrow> (error + unit) \<times> world" where
  "makeRevalidateFunc rt a now w =
     (case revalidate_start a w of (i, w') \<Rightarrow> revalidate_resume rt a now i w')"

datatype not_matched = OnFetch | OnError

record match_option =
  forceRevalidate :: "bool option"
  onNotMatched :: "not_matched option"

text \<open>\<^verbatim>\<open>const { forceRevalidate = false, onNotMatched = 'fetch' } = option ?? {}\<close>\<close>

definition forceRevalidate_of :: "match_option option \<Rightarrow> bool" where
  "forceRevalidate_of option =
     (case option of None \<Rightarrow> False
      | Some p \<Rightarrow> (case forceRevalidate p of None \<Rightarrow> False | Some b \<Rightarrow> b))"

definition onNotMatched_of :: "match_option option \<Rightarrow> not_matched" where
  "onNotMatched_of option =
     (case option of None \<Rightarrow> OnFetch
      | Some p \<Rightarrow> (case onNotMatched p of None \<Rightarrow> OnFetch | Some m \<Rightarrow> m))"

text \<open>\<^verbatim>\<open>context.waitUntil(revalidate())\<close>: the revalidation is started, and its promise is
  handed over.\<close>

definition waitUntil_revalidate :: "args \<Rightarrow> world \<Rightarrow> world" where
  "waitUntil_revalidate a w =
     (case revalidate_start a w of (i, w') \<Rightarrow> w'\<lparr>waiting := waiting w' @ [Revalidation i]\<rparr>)"

text \<open>\<^verbatim>\<open>return fetch(proxiedRequest)\<close>: the caller receives the answer to this fetch, or its
  failure.\<close>

definition return_fetch :: "runtime \<Rightarrow> request \<Rightarrow> world \<Rightarrow> (error + response) \<times> world" where
  "return_fetch rt req w =
     (case fetch req w of
        (i, w') \<Rightarrow> (case net rt i req of None \<Rightarrow> (Inl FetchFailed, w') | Some r \<Rightarrow> (Inr r, w')))"

definition makeMatchFunc ::
  "runtime \<Rightarrow> args \<Rightarrow> int \<Rightarrow> match_option option \<Rightarrow> world \<Rightarrow> (error + response) \<times> world" where
  "makeMatchFunc rt a now option w =
     (let proxiedRequest = proxy a (request a)
      in case KVCacheStore_match rt now (request a) w of
           (Inl e, w0) \<Rightarrow> (Inl e, w0)
         | (Inr (kvCache, remainingTime), w0) \<Rightarrow>
             (let w1 = (if forceRevalidate_of option \<or> js_lt1 remainingTime \<or> kvCache = None
                        then waitUntil_revalidate a w0 else w0)
              in case kvCache of
                   Some r \<Rightarrow> (Inr r, logger a ''hit the cache by KV'' w1)
                 | None \<Rightarrow>
                     (let w2 = logger a ''no hit caches'' w1
                      in if onNotMatched_of option = OnError
                         then (Inl (NotMatchedError ''Caches are not matched'' (request a)), w2)
                         else return_fetch rt proxiedRequest w2)))"

section \<open>The remaining time in the words of the specification\<close>

text \<open>Expiry minus now, converted to whole seconds, floored, and clamped to be at least 0.\<close>

definition spec_remainingSeconds :: "int \<Rightarrow> int \<Rightarrow> int" where
  "spec_remainingSeconds expiry now = max 0 \<lfloor>(real_of_int expiry - real_of_int now) / 1000\<rfloor>"

section \<open>Concrete inputs\<close>

definition req0 :: request where
  "req0 = \<lparr>url = ''https://cdn.example/page'', req_method = ''GET''\<rparr>"

text \<open>A proxy that rewrites the host, as in the README.\<close>

definition proxy0 :: "request \<Rightarrow> request" where
  "proxy0 r = r\<lparr>url := ''https://origin.example/page''\<rparr>"

definition args0 :: args where
  "args0 = makeSwr req0 (Some \<lparr>opt_ttl = None, opt_proxy = Some proxy0, opt_debug = None\<rparr>)"

text \<open>An origin that answers every fetch with the given status, and the first fetch with
  another body than the later ones; a date parser that knows one ISO string.\<close>

definition origin_answer :: "int \<Rightarrow> nat \<Rightarrow> response" where
  "origin_answer s i =
     \<lparr>status = s, headers = [(''content-type'', ''text/plain'')],
      body = (if i = 0 then ''first answer'' else ''later answer'')\<rparr>"

definition rt0 :: "int \<Rightarrow> runtime" where
  "rt0 s = \<lparr>dateGetTime = (\<lambda>d. if d = ''1970-01-01T00:01:00.000Z'' then Num 60000 else NaN),
            net = (\<lambda>i r. if url r = ''https://origin.example/page''
                         then Some (origin_answer s i) else None)\<rparr>"

definition world0 :: world where
  "world0 = \<lparr>kv = Map.empty, kv_calls = [], fetches = [], waiting = [], console = []\<rparr>"

definition entry0 :: "cached_json \<Rightarrow> kv_entry" where
  "entry0 j = \<lparr>stored = JObject j, expirationTtl = EXPIRATION_TTL\<rparr>"

text \<open>A current record expiring at 60000 ms, the legacy record for the same instant, and an
  object that has neither \<^verbatim>\<open>expireAt\<close> nor \<^verbatim>\<open>cacheTtl\<close>.\<close>

definition current0 :: cached_json where
  "current0 = \<lparr>j_headers = Some [], j_body = Some ''cached'', j_expireAt = Some 60000,
                j_cacheTtl = None\<rparr>"

definition legacy0 :: cached_json where
  "legacy0 = \<lparr>j_headers = Some [], j_body = Some ''cached'', j_expireAt = None,
               j_cacheTtl = Some ''1970-01-01T00:01:00.000Z''\<rparr>"

definition broken0 :: cached_json where
  "broken0 = \<lparr>j_headers = None, j_body = Some ''cached'', j_expireAt = None, j_cacheTtl = None\<rparr>"

definition world_with :: "cached_json \<Rightarrow> world" where
  "world_with j = world0\<lparr>kv := [url req0 \<mapsto> entry0 j]\<rparr>"

definition opt_error :: "match_option option" where
  "opt_error = Some \<lparr>forceRevalidate = None, onNotMatched = Some OnError\<rparr>"

definition opt_force :: "match_option option" where
  "opt_force = Some \<lparr>forceRevalidate = Some True, onNotMatched = None\<rparr>"

section \<open>Basic facts\<close>

lemmas store_defs = KVCacheStore_put_def KVCacheStore_match_def KVCacheStore_delete_def
  restoreResponse_def headerToJson_def

lemmas swr_defs = makeMatchFunc_def makeRevalidateFunc_def revalidate_start_def
  revalidate_resume_def waitUntil_revalidate_def return_fetch_def fetch_def logger_def
  makePutFunc_def makeClearFunc_def

lemmas input_defs = req0_def proxy0_def args0_def origin_answer_def rt0_def world0_def
  entry0_def current0_def legacy0_def broken0_def world_with_def makeSwr_def
  TTL_DEFAULT_def PROXY_DEFAULT_def EXPIRATION_TTL_def forceRevalidate_of_def
  onNotMatched_of_def

lemma floor_div1000: "\<lfloor>real_of_int a / 1000\<rfloor> = a div 1000"
proof -
  have "\<lfloor>real_of_int a / real_of_int 1000\<rfloor> = a div 1000"
    by (rule floor_divide_of_int_eq)
  then show ?thesis by simp
qed


lemma store_match_world:
  "snd (KVCacheStore_match rt now req w) = w\<lparr>kv_calls := kv_calls w @ [KvGet (url req)]\<rparr>"
  by (simp add: KVCacheStore_match_def Let_def split: option.splits kvjson.splits)

lemma store_match_cases:
  "KVCacheStore_match rt now req w = (fst (KVCacheStore_match rt now req w),
      w\<lparr>kv_calls := kv_calls w @ [KvGet (url req)]\<rparr>)"
  by (metis prod.collapse store_match_world)

lemma store_match_no_NotMatchedError:
  "fst (KVCacheStore_match rt now req w) \<noteq> Inl (NotMatchedError m q)"
  by (simp add: KVCacheStore_match_def Let_def split: option.splits kvjson.splits)

lemma args0_simps:
  "request args0 = req0" "proxy args0 = proxy0" "ttl args0 = 60" "debug args0 = False"
  by (simp_all add: input_defs)

lemma world0_simps:
  "kv world0 = Map.empty" "kv_calls world0 = []" "fetches world0 = []" "waiting world0 = []"
  "console world0 = []"
  by (simp_all add: world0_def)

lemma world_with_simps:
  "kv (world_with j) = [url req0 \<mapsto> entry0 j]" "kv_calls (world_with j) = []"
  "fetches (world_with j) = []" "waiting (world_with j) = []" "console (world_with j) = []"
  by (simp_all add: world_with_def world0_def)






section \<open>The decision engine: \<^verbatim>\<open>match\<close>\<close>

text \<open>
  C1. A hit is a store lookup that returns a response \<open>r\<close> with a remaining time.
  If \<^verbatim>\<open>forceRevalidate\<close> is false and the remaining time is at least 1, \<^verbatim>\<open>match\<close> returns \<open>r\<close>,
  hands nothing to \<^verbatim>\<open>waitUntil\<close> and issues no fetch. If \<^verbatim>\<open>forceRevalidate\<close> is true or the
  remaining time is below 1, \<^verbatim>\<open>match\<close> returns the same \<open>r\<close> (whatever the network answers)
  and hands exactly one revalidation to \<^verbatim>\<open>waitUntil\<close>, whose fetch of the proxied request
  has been issued.
\<close>

theorem match_hit:
  assumes "fst (KVCacheStore_match rt now (request a) w) = Inr (Some r, rem)"
  shows "(\<not> forceRevalidate_of option \<and> (\<exists>n. rem = Num n \<and> 1 \<le> n) \<longrightarrow>
            fst (makeMatchFunc rt a now option w) = Inr r \<and>
            waiting (snd (makeMatchFunc rt a now option w)) = waiting w \<and>
            fetches (snd (makeMatchFunc rt a now option w)) = fetches w)
       \<and> (forceRevalidate_of option \<or> (\<exists>n. rem = Num n \<and> n < 1) \<longrightarrow>
            fst (makeMatchFunc rt a now option w) = Inr r \<and>
            waiting (snd (makeMatchFunc rt a now option w))
              = waiting w @ [Revalidation (length (fetches w))] \<and>
            fetches (snd (makeMatchFunc rt a now option w))
              = fetches w @ [proxy a (request a)])"
proof -
  have "KVCacheStore_match rt now (request a) w
          = (Inr (Some r, rem), w\<lparr>kv_calls := kv_calls w @ [KvGet (url (request a))]\<rparr>)"
    using assms store_match_cases[of rt now "request a" w] by simp
  then show ?thesis
    by (auto simp: swr_defs Let_def)
qed

text \<open>A fresh hit at 1 s (59 s remain), a stale hit at 60 s, and a forced fresh hit.\<close>

theorem match_hit_witness:
  "fst (KVCacheStore_match (rt0 200) 1000 (request args0) (world_with current0))
     = Inr (Some \<lparr>status = 200, headers = [], body = ''cached''\<rparr>, Num 59)
   \<and> \<not> forceRevalidate_of None
   \<and> fst (makeMatchFunc (rt0 200) args0 1000 None (world_with current0))
       = Inr \<lparr>status = 200, headers = [], body = ''cached''\<rparr>
   \<and> waiting (snd (makeMatchFunc (rt0 200) args0 1000 None (world_with current0))) = []
   \<and> fetches (snd (makeMatchFunc (rt0 200) args0 1000 None (world_with current0))) = []
   \<and> fst (KVCacheStore_match (rt0 200) 60000 (request args0) (world_with current0))
       = Inr (Some \<lparr>status = 200, headers = [], body = ''cached''\<rparr>, Num 0)
   \<and> fst (makeMatchFunc (rt0 200) args0 60000 None (world_with current0))
       = Inr \<lparr>status = 200, headers = [], body = ''cached''\<rparr>
   \<and> waiting (snd (makeMatchFunc (rt0 200) args0 60000 None (world_with current0)))
       = [Revalidation 0]
   \<and> fetches (snd (makeMatchFunc (rt0 200) args0 60000 None (world_with current0)))
       = [proxy0 req0]
   \<and> forceRevalidate_of opt_force
   \<and> fst (makeMatchFunc (rt0 200) args0 1000 opt_force (world_with current0))
       = Inr \<lparr>status = 200, headers = [], body = ''cached''\<rparr>
   \<and> waiting (snd (makeMatchFunc (rt0 200) args0 1000 opt_force (world_with current0)))
       = [Revalidation 0]"
proof -
  have fresh: "fst (KVCacheStore_match (rt0 200) 1000 (request args0) (world_with current0))
     = Inr (Some \<lparr>status = 200, headers = [], body = ''cached''\<rparr>, Num 59)"
    by (simp add: store_defs input_defs floor_div1000)
  have stale: "fst (KVCacheStore_match (rt0 200) 60000 (request args0) (world_with current0))
     = Inr (Some \<lparr>status = 200, headers = [], body = ''cached''\<rparr>, Num 0)"
    by (simp add: store_defs input_defs floor_div1000)
  have force: "forceRevalidate_of opt_force" "\<not> forceRevalidate_of None"
    by (simp_all add: forceRevalidate_of_def opt_force_def)
  show ?thesis
    using fresh stale force match_hit[OF fresh, of None] match_hit[OF stale, of None]
      match_hit[OF fresh, of opt_force]
    by (simp add: args0_simps world_with_simps)
qed

text \<open>
  C2. On a miss (the store lookup returns no response) with \<^verbatim>\<open>onNotMatched\<close> \<^verbatim>\<open>'fetch'\<close>, which
  is the default, \<^verbatim>\<open>match\<close> returns the answer to its own fetch of the proxied request (or
  that fetch's failure). The store is read once and not written; one revalidation is
  handed to \<^verbatim>\<open>waitUntil\<close>; and two fetches of the proxied request are issued, the
  revalidation's first, each answered on its own.
\<close>

theorem match_miss_fetch:
  assumes "fst (KVCacheStore_match rt now (request a) w) = Inr (None, rem)"
    and "onNotMatched_of option = OnFetch"
  shows "fst (makeMatchFunc rt a now option w)
           = (case net rt (Suc (length (fetches w))) (proxy a (request a)) of
                None \<Rightarrow> Inl FetchFailed | Some r \<Rightarrow> Inr r)
       \<and> fetches (snd (makeMatchFunc rt a now option w))
           = fetches w @ [proxy a (request a), proxy a (request a)]
       \<and> waiting (snd (makeMatchFunc rt a now option w))
           = waiting w @ [Revalidation (length (fetches w))]
       \<and> kv_calls (snd (makeMatchFunc rt a now option w))
           = kv_calls w @ [KvGet (url (request a))]
       \<and> kv (snd (makeMatchFunc rt a now option w)) = kv w"
proof -
  have "KVCacheStore_match rt now (request a) w
          = (Inr (None, rem), w\<lparr>kv_calls := kv_calls w @ [KvGet (url (request a))]\<rparr>)"
    using assms(1) store_match_cases[of rt now "request a" w] by simp
  then show ?thesis
    using assms(2) by (auto simp: swr_defs Let_def split: option.splits)
qed

theorem match_miss_fetch_witness:
  "fst (KVCacheStore_match (rt0 200) 1000 (request args0) world0) = Inr (None, Num 0)
   \<and> onNotMatched_of None = OnFetch
   \<and> fst (makeMatchFunc (rt0 200) args0 1000 None world0) = Inr (origin_answer 200 1)
   \<and> fetches (snd (makeMatchFunc (rt0 200) args0 1000 None world0)) = [proxy0 req0, proxy0 req0]
   \<and> waiting (snd (makeMatchFunc (rt0 200) args0 1000 None world0)) = [Revalidation 0]
   \<and> kv_calls (snd (makeMatchFunc (rt0 200) args0 1000 None world0)) = [KvGet (url req0)]
   \<and> kv (snd (makeMatchFunc (rt0 200) args0 1000 None world0)) = Map.empty"
proof -
  have miss: "fst (KVCacheStore_match (rt0 200) 1000 (request args0) world0) = Inr (None, Num 0)"
    by (simp add: store_defs world0_simps)
  have pol: "onNotMatched_of None = OnFetch"
    by (simp add: onNotMatched_of_def)
  have n: "net (rt0 200) (Suc 0) (proxy0 req0) = Some (origin_answer 200 1)"
    by (simp add: rt0_def proxy0_def)
  show ?thesis
    using miss pol match_miss_fetch[OF miss pol]
    by (simp add: args0_simps world0_simps n)
qed

text \<open>
  C3. On a miss with \<^verbatim>\<open>onNotMatched\<close> \<^verbatim>\<open>'error'\<close>, \<^verbatim>\<open>match\<close> fails with a \<^verbatim>\<open>NotMatchedError\<close> that
  carries the original request, and by then one revalidation has been handed to
  \<^verbatim>\<open>waitUntil\<close> and its fetch issued. Conversely, whenever \<^verbatim>\<open>match\<close> fails with a
  \<^verbatim>\<open>NotMatchedError\<close>, the lookup was a miss, the policy was \<^verbatim>\<open>'error'\<close> and the request
  carried is the original one; and a revalidation never fails with it.
\<close>

theorem not_matched_error:
  "(fst (KVCacheStore_match rt now (request a) w) = Inr (None, rem)
      \<and> onNotMatched_of option = OnError \<longrightarrow>
        fst (makeMatchFunc rt a now option w)
          = Inl (NotMatchedError ''Caches are not matched'' (request a))
      \<and> waiting (snd (makeMatchFunc rt a now option w))
          = waiting w @ [Revalidation (length (fetches w))]
      \<and> fetches (snd (makeMatchFunc rt a now option w)) = fetches w @ [proxy a (request a)])
   \<and> (fst (makeMatchFunc rt a now option w) = Inl (NotMatchedError m q) \<longrightarrow>
        (\<exists>rem'. fst (KVCacheStore_match rt now (request a) w) = Inr (None, rem'))
      \<and> onNotMatched_of option = OnError \<and> q = request a)
   \<and> fst (makeRevalidateFunc rt a now w) \<noteq> Inl (NotMatchedError m q)
   \<and> fst (revalidate_resume rt a now i w) \<noteq> Inl (NotMatchedError m q)"
proof -
  obtain x where x: "KVCacheStore_match rt now (request a) w
          = (x, w\<lparr>kv_calls := kv_calls w @ [KvGet (url (request a))]\<rparr>)"
    using store_match_cases by blast
  have 1: "fst (KVCacheStore_match rt now (request a) w) = Inr (None, rem)
      \<and> onNotMatched_of option = OnError \<longrightarrow>
        fst (makeMatchFunc rt a now option w)
          = Inl (NotMatchedError ''Caches are not matched'' (request a))
      \<and> waiting (snd (makeMatchFunc rt a now option w))
          = waiting w @ [Revalidation (length (fetches w))]
      \<and> fetches (snd (makeMatchFunc rt a now option w)) = fetches w @ [proxy a (request a)]"
    by (auto simp: x swr_defs Let_def)
  have sm: "fst (KVCacheStore_match rt now (request a) w) \<noteq> Inl (NotMatchedError m q)"
    by (rule store_match_no_NotMatchedError)
  have 2: "fst (makeMatchFunc rt a now option w) = Inl (NotMatchedError m q) \<longrightarrow>
        (\<exists>rem'. fst (KVCacheStore_match rt now (request a) w) = Inr (None, rem'))
      \<and> onNotMatched_of option = OnError \<and> q = request a"
    using sm by (cases x) (auto simp: x makeMatchFunc_def return_fetch_def fetch_def Let_def
          split: option.splits if_splits)
  have 3: "fst (makeRevalidateFunc rt a now w) \<noteq> Inl (NotMatchedError m q)"
    by (auto simp: swr_defs Let_def split: option.splits)
  have 4: "fst (revalidate_resume rt a now i w) \<noteq> Inl (NotMatchedError m q)"
    by (auto simp: swr_defs Let_def split: option.splits)
  from 1 2 3 4 show ?thesis by blast
qed

text \<open>The proxy of the example rewrites the URL, and the error carries the original request.\<close>

theorem not_matched_error_witness:
  "fst (KVCacheStore_match (rt0 200) 1000 (request args0) world0) = Inr (None, Num 0)
   \<and> onNotMatched_of opt_error = OnError
   \<and> fst (makeMatchFunc (rt0 200) args0 1000 opt_error world0)
       = Inl (NotMatchedError ''Caches are not matched'' req0)
   \<and> waiting (snd (makeMatchFunc (rt0 200) args0 1000 opt_error world0)) = [Revalidation 0]
   \<and> fetches (snd (makeMatchFunc (rt0 200) args0 1000 opt_error world0)) = [proxy0 req0]
   \<and> proxy0 req0 \<noteq> req0"
proof -
  have miss: "fst (KVCacheStore_match (rt0 200) 1000 (request args0) world0) = Inr (None, Num 0)"
    by (simp add: store_defs world0_simps)
  have pol: "onNotMatched_of opt_error = OnError"
    by (simp add: onNotMatched_of_def opt_error_def)
  have ne: "proxy0 req0 \<noteq> req0"
    by (simp add: proxy0_def req0_def)
  show ?thesis
    using miss pol ne
      not_matched_error[of "rt0 200" 1000 args0 world0 "Num 0" opt_error
          "''Caches are not matched''" req0 0]
    by (simp add: args0_simps world0_simps)
qed

section \<open>The revalidation protocol\<close>





section \<open>The store adapter and the stored records\<close>




text \<open>
  C7. Let a legacy record carry the timestamp string \<open>s\<close>, which the platform reads as the
  instant \<open>e\<close>, and let a current record carry \<^verbatim>\<open>expireAt\<close> \<open>e\<close>, with the same headers and
  body. Then a lookup at any time gives the same result for both, and its remaining
  time is the one of the specification: expiry minus now, in whole seconds, floored,
  at least 0.
\<close>

theorem legacy_same_remaining:
  assumes "dateGetTime rt s = Num e"
    and "kv w (url req) = Some \<lparr>stored = JObject \<lparr>j_headers = h, j_body = b, j_expireAt = None,
            j_cacheTtl = Some s\<rparr>, expirationTtl = x\<rparr>"
    and "kv w' (url req) = Some \<lparr>stored = JObject \<lparr>j_headers = h, j_body = b, j_expireAt = Some e,
            j_cacheTtl = None\<rparr>, expirationTtl = x'\<rparr>"
  shows "fst (KVCacheStore_match rt now req w) = fst (KVCacheStore_match rt now req w')
       \<and> (\<exists>r. fst (KVCacheStore_match rt now req w) = Inr (Some r, Num (spec_remainingSeconds e now)))"
  using assms
  by (simp add: store_defs spec_remainingSeconds_def max.commute)

theorem legacy_same_remaining_witness:
  "dateGetTime (rt0 200) ''1970-01-01T00:01:00.000Z'' = Num 60000
   \<and> fst (KVCacheStore_match (rt0 200) 1500 req0 (world_with legacy0))
     = Inr (Some \<lparr>status = 200, headers = [], body = ''cached''\<rparr>, Num 58)
   \<and> fst (KVCacheStore_match (rt0 200) 1500 req0 (world_with current0))
     = Inr (Some \<lparr>status = 200, headers = [], body = ''cached''\<rparr>, Num 58)
   \<and> spec_remainingSeconds 60000 1500 = 58
   \<and> fst (KVCacheStore_match (rt0 200) 70000 req0 (world_with legacy0))
     = Inr (Some \<lparr>status = 200, headers = [], body = ''cached''\<rparr>, Num 0)
   \<and> fst (KVCacheStore_match (rt0 200) 70000 req0 (world_with current0))
     = Inr (Some \<lparr>status = 200, headers = [], body = ''cached''\<rparr>, Num 0)"
proof -
  have d: "dateGetTime (rt0 200) ''1970-01-01T00:01:00.000Z'' = Num 60000"
    by (simp add: rt0_def)
  have l: "kv (world_with legacy0) (url req0) = Some \<lparr>stored = JObject \<lparr>j_headers = Some [],
        j_body = Some ''cached'', j_expireAt = None,
        j_cacheTtl = Some ''1970-01-01T00:01:00.000Z''\<rparr>, expirationTtl = EXPIRATION_TTL\<rparr>"
    by (simp add: world_with_simps entry0_def legacy0_def)
  have c: "kv (world_with current0) (url req0) = Some \<lparr>stored = JObject \<lparr>j_headers = Some [],
        j_body = Some ''cached'', j_expireAt = Some 60000, j_cacheTtl = None\<rparr>,
        expirationTtl = EXPIRATION_TTL\<rparr>"
    by (simp add: world_with_simps entry0_def current0_def)
  have s: "spec_remainingSeconds 60000 1500 = 58" "spec_remainingSeconds 60000 70000 = 0"
    using floor_div1000[of 58500] floor_div1000[of "-10000"]
    by (simp_all add: spec_remainingSeconds_def)
  have m: "fst (KVCacheStore_match (rt0 200) 1500 req0 (world_with current0))
     = Inr (Some \<lparr>status = 200, headers = [], body = ''cached''\<rparr>, Num 58)"
    "fst (KVCacheStore_match (rt0 200) 70000 req0 (world_with current0))
     = Inr (Some \<lparr>status = 200, headers = [], body = ''cached''\<rparr>, Num 0)"
    by (simp_all add: store_defs world_with_simps entry0_def current0_def floor_div1000)
  show ?thesis
    using d s m legacy_same_remaining[OF d l c, of 1500] legacy_same_remaining[OF d l c, of 70000]
    by simp
qed



text \<open>
  C9, as the specification states it, fails: with a TTL of two years (63072000 s) the
  expiration hint of the entry put does not exceed the TTL.
\<close>

theorem expiration_hint_counterexample:
  "\<not> (63072000 < expirationTtl (the (kv (KVCacheStore_put 63072000 0 req0 (origin_answer 200 0) world0)
                                    (url req0))))"
  by (simp add: store_defs EXPIRATION_TTL_def)

text \<open>
  C9, amended. Every \<^verbatim>\<open>put\<close>, of the store adapter and of the engine, writes the entry with
  the expiration hint 31536000 s (one year), whatever the TTL; the hint exceeds the TTL
  whenever the TTL is below 31536000 s.
\<close>

theorem expiration_hint:
  "(\<exists>e. kv (KVCacheStore_put t now req res w) (url req) = Some e \<and> expirationTtl e = 31536000
        \<and> (t < 31536000 \<longrightarrow> t < expirationTtl e))
   \<and> (\<exists>e. kv (makePutFunc a now req' w) (url (request a)) = Some e \<and> expirationTtl e = 31536000
        \<and> (ttl a < 31536000 \<longrightarrow> ttl a < expirationTtl e))"
  by (simp add: makePutFunc_def logger_def store_defs EXPIRATION_TTL_def)

theorem expiration_hint_witness:
  "(60::int) < 31536000
   \<and> kv (KVCacheStore_put 60 0 req0 (origin_answer 200 0) world0) (url req0)
     = Some \<lparr>stored = JObject \<lparr>j_headers = Some [(''content-type'', ''text/plain'')],
                                j_body = Some ''first answer'',
                                j_expireAt = Some 60000, j_cacheTtl = None\<rparr>,
             expirationTtl = 31536000\<rparr>
   \<and> expirationTtl (the (kv (makePutFunc args0 0 (origin_answer 200 0) world0) (url req0))) = 31536000"
  using expiration_hint[of 60 0 req0 "origin_answer 200 0" world0 args0 "origin_answer 200 0"]
  by (simp add: makePutFunc_def logger_def store_defs EXPIRATION_TTL_def origin_answer_def args0_simps)

text \<open>
  C10. Every response that a lookup of the store adapter returns has status 200, as has
  every response that \<open>restoreResponse\<close> builds. \<^verbatim>\<open>put\<close> stores the same entry whatever the
  status of the response it is given, and a lookup after a \<^verbatim>\<open>put\<close> returns the response
  put with its status replaced by 200.
\<close>

theorem restored_status_200:
  "(fst (KVCacheStore_match rt now req w) = Inr (Some r, rem) \<longrightarrow> status r = 200)
   \<and> status (restoreResponse j) = 200
   \<and> KVCacheStore_put t now req (res\<lparr>status := s\<rparr>) w = KVCacheStore_put t now req res w
   \<and> (\<exists>rem. fst (KVCacheStore_match rt now' req (KVCacheStore_put t now req res w))
        = Inr (Some (res\<lparr>status := 200\<rparr>), rem))"
  by (auto simp: store_defs Let_def split: option.splits kvjson.splits)

text \<open>A response with status 404 is put and comes back with status 200.\<close>

theorem restored_status_200_witness:
  "fst (KVCacheStore_match (rt0 200) 5 req0 (KVCacheStore_put 60 0 req0 (origin_answer 404 0) world0))
     = Inr (Some \<lparr>status = 200, headers = [(''content-type'', ''text/plain'')],
                  body = ''first answer''\<rparr>, Num 59)
   \<and> status (origin_answer 404 0) = 404
   \<and> status \<lparr>status = 200, headers = [(''content-type'', ''text/plain'')],
              body = ''first answer''\<rparr> = 200"
proof -
  have m: "fst (KVCacheStore_match (rt0 200) 5 req0 (KVCacheStore_put 60 0 req0 (origin_answer 404 0) world0))
     = Inr (Some \<lparr>status = 200, headers = [(''content-type'', ''text/plain'')],
                  body = ''first answer''\<rparr>, Num 59)"
    by (simp add: store_defs origin_answer_def floor_div1000)
  show ?thesis
    using m restored_status_200[of "rt0 200" 5 req0
        "KVCacheStore_put 60 0 req0 (origin_answer 404 0) world0"
        "\<lparr>status = 200, headers = [(''content-type'', ''text/plain'')], body = ''first answer''\<rparr>"
        "Num 59"]
    by (simp add: origin_answer_def)
qed

end
